theory Spec2Isabelle
  imports Main "HOL-Library.AList"
begin

section \<open>Python values and errors\<close>

text \<open>
  The module \<^verbatim>\<open>pymatgen/io/abinit/xc.py\<close> defines the class \<^verbatim>\<open>XcFunctional\<close>. Its
  fields hold members of the enumeration \<^verbatim>\<open>LibxcFuncs\<close> or \<^verbatim>\<open>None\<close>, and the keys of
  its alias table are tuples of members. A value is therefore \<^verbatim>\<open>None\<close>, a member
  (of type \<open>'c\<close>) or a tuple of values; equality of values is Python's \<^verbatim>\<open>==\<close> on them
  (members are compared by identity, tuples elementwise).
\<close>

datatype 'c pyval = PyNone | Code 'c | Tuple "'c pyval list"

text \<open>
  Every \<^verbatim>\<open>raise\<close> and failing \<^verbatim>\<open>assert\<close> of the module is a value of \<open>error\<close>. The
  constructors carry the Python exception class and the place that raises it:
  \<^item> \<open>ValueError_init\<close>: either \<^verbatim>\<open>ValueError\<close> of \<^verbatim>\<open>__init__\<close>
    (the specification's InvalidArgumentError);
  \<^item> \<open>KeyError_ixc\<close>: the lookup \<^verbatim>\<open>abinitixc_to_libxc[ixc]\<close> of a missing key
    (UnknownLegacyCodeError);
  \<^item> \<open>AssertionError_length\<close>: \<^verbatim>\<open>assert len(ixc[1:]) == 6\<close> (MalformedLegacyCodeError);
  \<^item> \<open>AssertionError_kind\<close>: \<^verbatim>\<open>assert x.is_x_kind and c.is_c_kind\<close>
    (InvalidFunctionalKindError);
  \<^item> \<open>ValueError_int\<close>: \<^verbatim>\<open>int(s)\<close> on a string that is not an integer literal;
  \<^item> \<open>ValueError_LibxcFuncs\<close>: \<^verbatim>\<open>LibxcFuncs(n)\<close> when no member has the value \<open>n\<close>;
  \<^item> \<open>ValueError_name\<close>: the \<^verbatim>\<open>ValueError\<close> that ends \<^verbatim>\<open>from_name\<close>
    (UnknownFunctionalNameError);
  \<^item> \<open>NotImplementedError\<close>: raised by \<^verbatim>\<open>type\<close> (UnknownFunctionalError);
  \<^item> \<open>AttributeError\<close>: reading \<^verbatim>\<open>.name\<close> on \<^verbatim>\<open>None\<close> or on a tuple;
  \<^item> \<open>TypeError\<close>: \<^verbatim>\<open>len(k)\<close> on a value without a length, and the \<^verbatim>\<open>%\<close> formatting
    of \<^verbatim>\<open>"Wrong key: %s" % k\<close>, which fails for a tuple \<^verbatim>\<open>k\<close> of any length other
    than one before the \<^verbatim>\<open>ValueError\<close> around it is built.
\<close>

datatype error =
    ValueError_init
  | KeyError_ixc
  | AssertionError_length
  | AssertionError_kind
  | ValueError_int
  | ValueError_LibxcFuncs
  | ValueError_name
  | NotImplementedError
  | AttributeError
  | TypeError

section \<open>The enumeration LibxcFuncs\<close>

text \<open>
  \<^verbatim>\<open>LibxcFuncs\<close> is imported from \<^verbatim>\<open>pymatgen.io.abinit.libxcfuncs\<close>, a module that is
  not among the sources. The class is a parameter of everything below: a record of
  the fourteen members that \<^verbatim>\<open>xc.py\<close> names, of the call \<^verbatim>\<open>LibxcFuncs(n)\<close>
  (\<open>of_value\<close>, \<open>None\<close> where Python raises \<^verbatim>\<open>ValueError\<close>) and of the attributes
  that \<^verbatim>\<open>xc.py\<close> reads on a member: \<^verbatim>\<open>name\<close>, \<^verbatim>\<open>is_x_kind\<close> and \<^verbatim>\<open>is_c_kind\<close>.
  The attribute \<^verbatim>\<open>type\<close> of a member is read only by statements that no execution
  reaches and is left out.
\<close>

record 'c LibxcFuncs =
  LDA_X :: 'c
  LDA_C_PW :: 'c
  GGA_X_PW91 :: 'c
  GGA_C_PW91 :: 'c
  GGA_X_PBE :: 'c
  GGA_C_PBE :: 'c
  GGA_X_RPBE :: 'c
  GGA_X_PBE_R :: 'c
  GGA_X_PBE_SOL :: 'c
  GGA_C_PBE_SOL :: 'c
  GGA_X_AM05 :: 'c
  GGA_C_AM05 :: 'c
  GGA_X_B88 :: 'c
  GGA_C_LYP :: 'c
  of_value :: "int \<Rightarrow> 'c option"
  code_name :: "'c \<Rightarrow> string"
  is_x_kind :: "'c \<Rightarrow> bool"
  is_c_kind :: "'c \<Rightarrow> bool"

section \<open>Strings\<close>

text \<open>
  Strings are text strings (\<^verbatim>\<open>unicode\<close> in Python 2, \<^verbatim>\<open>str\<close> in Python 3) over the
  code points below 256, one \<open>char\<close> each. \<open>isspace\<close> lists the code points of that
  range that \<^verbatim>\<open>strip()\<close> removes: 9 to 13, 28 to 32, 133 and 160.
\<close>

definition isspace :: "char \<Rightarrow> bool" where
  "isspace ch \<longleftrightarrow>
     ch \<in> set [CHR 0x09, CHR 0x0A, CHR 0x0B, CHR 0x0C, CHR 0x0D,
               CHR 0x1C, CHR 0x1D, CHR 0x1E, CHR 0x1F, CHR 0x20, CHR 0x85, CHR 0xA0]"

definition strip :: "string \<Rightarrow> string" where
  "strip s = rev (dropWhile isspace (rev (dropWhile isspace s)))"

definition startswith_minus :: "string \<Rightarrow> bool" where
  "startswith_minus s = (case s of [] \<Rightarrow> False | ch # _ \<Rightarrow> ch = CHR ''-'')"

definition isdigit :: "char \<Rightarrow> bool" where
  "isdigit ch \<longleftrightarrow> ch \<in> set ''0123456789''"

definition digit_value :: "char \<Rightarrow> nat" where
  "digit_value ch = of_char ch - 48"

text \<open>
  \<^verbatim>\<open>int(s)\<close> for a string. \<open>py_int\<close> reads the strings that Python 2 and Python 3
  read alike, with the value both give: blanks at both ends, then one optional sign,
  then decimal digits directly after it. The blanks of \<^verbatim>\<open>int\<close> are not those of
  \<^verbatim>\<open>strip()\<close>: the separators 28 to 31 are no blanks for \<^verbatim>\<open>int\<close> in Python 3.
  Every other string is \<^verbatim>\<open>ValueError\<close> here. Single versions read a few strings
  more (Python 3.6 and later an underscore between two digits, Python 2 blanks between
  the sign and the digits); \<open>py_int\<close> raises on them, so that it returns a number
  only where every version returns that number.
\<close>

definition int_space :: "char \<Rightarrow> bool" where
  "int_space ch \<longleftrightarrow>
     ch \<in> set [CHR 0x09, CHR 0x0A, CHR 0x0B, CHR 0x0C, CHR 0x0D, CHR 0x20, CHR 0x85, CHR 0xA0]"

text \<open>\<open>int_digits acc s\<close> reads the digits \<open>s\<close> after the digits of value \<open>acc\<close>.\<close>

fun int_digits :: "nat \<Rightarrow> string \<Rightarrow> nat option" where
  "int_digits acc [] = Some acc"
| "int_digits acc (ch # s) =
     (if isdigit ch then int_digits (10 * acc + digit_value ch) s else None)"

definition unsigned_int :: "string \<Rightarrow> error + nat" where
  "unsigned_int s =
     (case s of
        [] \<Rightarrow> Inl ValueError_int
      | ch # r \<Rightarrow>
          if isdigit ch then
            (case int_digits (digit_value ch) r of
               None \<Rightarrow> Inl ValueError_int
             | Some n \<Rightarrow> Inr n)
          else Inl ValueError_int)"

definition py_int :: "string \<Rightarrow> error + int" where
  "py_int s =
     (case rev (dropWhile int_space (rev (dropWhile int_space s))) of
        [] \<Rightarrow> Inl ValueError_int
      | ch # r \<Rightarrow>
          if ch = CHR ''-'' then
            (case unsigned_int r of Inl e \<Rightarrow> Inl e | Inr n \<Rightarrow> Inr (- int n))
          else if ch = CHR ''+'' then
            (case unsigned_int r of Inl e \<Rightarrow> Inl e | Inr n \<Rightarrow> Inr (int n))
          else
            (case unsigned_int (ch # r) of Inl e \<Rightarrow> Inl e | Inr n \<Rightarrow> Inr (int n)))"

section \<open>The class XcFunctional\<close>

subsection \<open>The tables\<close>

text \<open>The named tuple \<^verbatim>\<open>type_name\<close> with its fields \<^verbatim>\<open>type\<close> and \<^verbatim>\<open>name\<close>.\<close>

record type_name_nt =
  nt_type :: string
  nt_name :: string

text \<open>
  \<^verbatim>\<open>OrderedDict(items)\<close> inserts the items from left to right: a key that is already
  there keeps its place and takes the new value, a new key goes to the end.
  \<open>map_of d k\<close> is then both \<^verbatim>\<open>k in d\<close> (it is \<open>Some\<close>) and \<^verbatim>\<open>d[k]\<close>.
  \<open>alias_items\<close> is the list literal that \<^verbatim>\<open>aliases\<close> is built from.
\<close>

definition OrderedDict :: "('k \<times> 'v) list \<Rightarrow> ('k \<times> 'v) list" where
  "OrderedDict items = foldl (\<lambda>d (k, v). AList.update k v d) [] items"

definition alias_items :: "'c LibxcFuncs \<Rightarrow> ('c pyval \<times> type_name_nt) list" where
  "alias_items xcf = [
     (Tuple [Code (LDA_X xcf), Code (LDA_C_PW xcf)], \<lparr>nt_type = ''LDA'', nt_name = ''PW''\<rparr>),
     (Tuple [Code (GGA_X_PW91 xcf), Code (GGA_C_PW91 xcf)], \<lparr>nt_type = ''GGA'', nt_name = ''PW91''\<rparr>),
     (Tuple [Code (GGA_X_PBE xcf), Code (GGA_C_PBE xcf)], \<lparr>nt_type = ''GGA'', nt_name = ''PBE''\<rparr>),
     (Tuple [Code (GGA_X_RPBE xcf), Code (GGA_C_PBE xcf)], \<lparr>nt_type = ''GGA'', nt_name = ''RPBE''\<rparr>),
     (Tuple [Code (GGA_X_PBE_R xcf), Code (GGA_C_PBE xcf)], \<lparr>nt_type = ''GGA'', nt_name = ''revPBE''\<rparr>),
     (Tuple [Code (GGA_X_PBE_SOL xcf), Code (GGA_C_PBE_SOL xcf)], \<lparr>nt_type = ''GGA'', nt_name = ''PBEsol''\<rparr>),
     (Tuple [Code (GGA_X_AM05 xcf), Code (GGA_C_AM05 xcf)], \<lparr>nt_type = ''GGA'', nt_name = ''AM05''\<rparr>),
     (Tuple [Code (GGA_X_B88 xcf), Code (GGA_C_LYP xcf)], \<lparr>nt_type = ''GGA'', nt_name = ''BLYP''\<rparr>)]"

definition aliases :: "'c LibxcFuncs \<Rightarrow> ('c pyval \<times> type_name_nt) list" where
  "aliases xcf = OrderedDict (alias_items xcf)"

text \<open>
  \<^verbatim>\<open>abinitixc_to_libxc\<close>: each value is the dictionary \<^verbatim>\<open>dict(x=..., c=...)\<close>, kept as
  the pair of its two entries.
\<close>

definition abinitixc_to_libxc :: "'c LibxcFuncs \<Rightarrow> (string \<times> ('c \<times> 'c)) list" where
  "abinitixc_to_libxc xcf = [(''11'', (GGA_X_PBE xcf, GGA_C_PBE xcf))]"

subsection \<open>Construction\<close>

record 'c XcFunctional =
  self_xc :: "'c pyval"
  self_x :: "'c pyval"
  self_c :: "'c pyval"

text \<open>\<^verbatim>\<open>__init__(self, xc=None, x=None, c=None)\<close>.\<close>

definition XcFunctional_init ::
  "'c pyval \<Rightarrow> 'c pyval \<Rightarrow> 'c pyval \<Rightarrow> error + 'c XcFunctional" where
  "XcFunctional_init xc x c =
     (if xc = PyNone then
        (if x = PyNone \<or> c = PyNone then Inl ValueError_init
         else Inr \<lparr>self_xc = xc, self_x = x, self_c = c\<rparr>)
      else
        (if x \<noteq> PyNone \<or> c \<noteq> PyNone then Inl ValueError_init
         else Inr \<lparr>self_xc = xc, self_x = x, self_c = c\<rparr>))"

text \<open>
  \<^verbatim>\<open>from_abinit_ixc(cls, ixc_string)\<close>. The two calls \<^verbatim>\<open>LibxcFuncs(int(first))\<close> and
  \<^verbatim>\<open>LibxcFuncs(int(last))\<close> run from left to right.
\<close>

definition LibxcFuncs_of_string :: "'c LibxcFuncs \<Rightarrow> string \<Rightarrow> error + 'c" where
  "LibxcFuncs_of_string xcf s =
     (case py_int s of
        Inl e \<Rightarrow> Inl e
      | Inr n \<Rightarrow>
          (case of_value xcf n of
             None \<Rightarrow> Inl ValueError_LibxcFuncs
           | Some m \<Rightarrow> Inr m))"

definition from_abinit_ixc :: "'c LibxcFuncs \<Rightarrow> string \<Rightarrow> error + 'c XcFunctional" where
  "from_abinit_ixc xcf ixc_string =
     (let ixc = strip ixc_string in
      if \<not> startswith_minus ixc then
        (case map_of (abinitixc_to_libxc xcf) ixc of
           None \<Rightarrow> Inl KeyError_ixc
         | Some (x, c) \<Rightarrow> XcFunctional_init PyNone (Code x) (Code c))
      else if length (drop 1 ixc) \<noteq> 6 then Inl AssertionError_length
      else
        (let first = take 3 (drop 1 ixc); last = drop 4 ixc in
         case LibxcFuncs_of_string xcf first of
           Inl e \<Rightarrow> Inl e
         | Inr x0 \<Rightarrow>
             (case LibxcFuncs_of_string xcf last of
                Inl e \<Rightarrow> Inl e
              | Inr c0 \<Rightarrow>
                  (let (x, c) = (if \<not> is_x_kind xcf x0 then (c0, x0) else (x0, c0)) in
                   if \<not> (is_x_kind xcf x \<and> is_c_kind xcf c) then Inl AssertionError_kind
                   else XcFunctional_init PyNone (Code x) (Code c)))))"

text \<open>
  \<^verbatim>\<open>from_name(cls, name)\<close>: the loop over \<^verbatim>\<open>cls.aliases.items()\<close> is
  \<open>from_name_items\<close>, which returns or raises at the first item with the name. There
  the key \<open>k\<close> is matched against the three outcomes of the loop body: a tuple of
  length one (\<^verbatim>\<open>cls(xc=k)\<close>, with the tuple itself as \<^verbatim>\<open>xc\<close>), a tuple of length two
  (\<^verbatim>\<open>cls(x=k[0], c=k[1])\<close>), and every other value, for which \<^verbatim>\<open>len(k)\<close> or the
  formatting of the message raises \<^verbatim>\<open>TypeError\<close>.
\<close>

fun from_name_items ::
  "('c pyval \<times> type_name_nt) list \<Rightarrow> string \<Rightarrow> error + 'c XcFunctional" where
  "from_name_items [] nm = Inl ValueError_name"
| "from_name_items ((k, tn) # items) nm =
     (if nt_name tn = nm then
        (case k of
           Tuple [v] \<Rightarrow> XcFunctional_init k PyNone PyNone
         | Tuple [v0, v1] \<Rightarrow> XcFunctional_init PyNone v0 v1
         | _ \<Rightarrow> Inl TypeError)
      else from_name_items items nm)"

definition from_name :: "'c LibxcFuncs \<Rightarrow> string \<Rightarrow> error + 'c XcFunctional" where
  "from_name xcf nm = from_name_items (aliases xcf) nm"

subsection \<open>The derived properties\<close>

text \<open>
  \<^verbatim>\<open>type\<close>, \<^verbatim>\<open>name\<close> and \<^verbatim>\<open>type_name\<close> are lazy properties: computed at the first
  read and stored. They depend on the three fields and the alias table only, so the
  stored value is the value of the function below at every read.
\<close>

definition attr_name :: "'c LibxcFuncs \<Rightarrow> 'c pyval \<Rightarrow> error + string" where
  "attr_name xcf v = (case v of Code m \<Rightarrow> Inr (code_name xcf m) | _ \<Rightarrow> Inl AttributeError)"

text \<open>
  \<^verbatim>\<open>type\<close>: the two statements after \<^verbatim>\<open>raise NotImplementedError()\<close> are never run.
\<close>

definition type :: "'c LibxcFuncs \<Rightarrow> 'c XcFunctional \<Rightarrow> error + string" where
  "type xcf self =
     (case map_of (aliases xcf) (self_xc self) of
        Some tn \<Rightarrow> Inr (nt_type tn)
      | None \<Rightarrow>
          (case map_of (aliases xcf) (Tuple [self_x self, self_c self]) of
             Some tn \<Rightarrow> Inr (nt_type tn)
           | None \<Rightarrow> Inl NotImplementedError))"

definition name :: "'c LibxcFuncs \<Rightarrow> 'c XcFunctional \<Rightarrow> error + string" where
  "name xcf self =
     (case map_of (aliases xcf) (self_xc self) of
        Some tn \<Rightarrow> Inr (nt_name tn)
      | None \<Rightarrow>
          (case map_of (aliases xcf) (Tuple [self_x self, self_c self]) of
             Some tn \<Rightarrow> Inr (nt_name tn)
           | None \<Rightarrow>
               if self_xc self \<noteq> PyNone then attr_name xcf (self_xc self)
               else
                 (case attr_name xcf (self_x self) of
                    Inl e \<Rightarrow> Inl e
                  | Inr xn \<Rightarrow>
                      (case attr_name xcf (self_c self) of
                         Inl e \<Rightarrow> Inl e
                       | Inr cn \<Rightarrow> Inr (xn @ ''+'' @ cn)))))"

definition type_name :: "'c LibxcFuncs \<Rightarrow> 'c XcFunctional \<Rightarrow> error + string" where
  "type_name xcf self =
     (case type xcf self of
        Inl e \<Rightarrow> Inl e
      | Inr t \<Rightarrow>
          (case name xcf self of
             Inl e \<Rightarrow> Inl e
           | Inr n \<Rightarrow> Inr (t @ ''-'' @ n)))"

subsection \<open>Equality and hashing\<close>

text \<open>
  The right operand of \<^verbatim>\<open>==\<close>: \<^verbatim>\<open>None\<close>, another \<^verbatim>\<open>XcFunctional\<close>, or a string
  (\<^verbatim>\<open>__eq__\<close> takes every other operand for a string).
\<close>

datatype 'c operand = OpNone | OpXc "'c XcFunctional" | OpStr string

definition XcFunctional_eq ::
  "'c LibxcFuncs \<Rightarrow> 'c XcFunctional \<Rightarrow> 'c operand \<Rightarrow> error + bool" where
  "XcFunctional_eq xcf self other =
     (case other of
        OpNone \<Rightarrow> Inr False
      | OpXc b \<Rightarrow>
          (case name xcf self of
             Inl e \<Rightarrow> Inl e
           | Inr n \<Rightarrow> (case name xcf b of Inl e \<Rightarrow> Inl e | Inr m \<Rightarrow> Inr (n = m)))
      | OpStr s \<Rightarrow>
          (case name xcf self of Inl e \<Rightarrow> Inl e | Inr n \<Rightarrow> Inr (n = s)))"

definition XcFunctional_ne ::
  "'c LibxcFuncs \<Rightarrow> 'c XcFunctional \<Rightarrow> 'c operand \<Rightarrow> error + bool" where
  "XcFunctional_ne xcf self other =
     (case XcFunctional_eq xcf self other of Inl e \<Rightarrow> Inl e | Inr b \<Rightarrow> Inr (\<not> b))"

text \<open>
  \<^verbatim>\<open>__hash__\<close> is \<^verbatim>\<open>hash(self.name)\<close>; \<open>h\<close> is the interpreter's hash of strings.
\<close>

definition XcFunctional_hash ::
  "(string \<Rightarrow> int) \<Rightarrow> 'c LibxcFuncs \<Rightarrow> 'c XcFunctional \<Rightarrow> error + int" where
  "XcFunctional_hash h xcf self =
     (case name xcf self of Inl e \<Rightarrow> Inl e | Inr n \<Rightarrow> Inr (h n))"

subsection \<open>Objects that the constructors return\<close>

text \<open>
  \<^verbatim>\<open>__init__\<close> documents its arguments as members of \<^verbatim>\<open>LibxcFuncs\<close>, \<^verbatim>\<open>None\<close> being
  the default of each. \<open>constructed xcf f\<close> says that \<open>f\<close> is an object returned by
  one of the three ways to build one: \<^verbatim>\<open>from_abinit_ixc\<close>, \<^verbatim>\<open>from_name\<close>, or the
  class called with arguments of the documented kind.
\<close>

definition member_or_None :: "'c pyval \<Rightarrow> bool" where
  "member_or_None v = (case v of Tuple _ \<Rightarrow> False | _ \<Rightarrow> True)"

inductive constructed :: "'c LibxcFuncs \<Rightarrow> 'c XcFunctional \<Rightarrow> bool" for xcf where
  by_ixc: "from_abinit_ixc xcf s = Inr f \<Longrightarrow> constructed xcf f"
| by_name: "from_name xcf nm = Inr f \<Longrightarrow> constructed xcf f"
| by_init: "member_or_None xc \<Longrightarrow> member_or_None x \<Longrightarrow> member_or_None c \<Longrightarrow>
     XcFunctional_init xc x c = Inr f \<Longrightarrow> constructed xcf f"

section \<open>An instance of the enumeration\<close>

text \<open>
  The theorems below hold for every enumeration. Where one of them is applied to a
  concrete input, the enumeration is \<open>libxc_ids\<close>: the fourteen members under the
  numbers that libxc gives them, each member being its number.
\<close>

definition libxc_names :: "(int \<times> string) list" where
  "libxc_names = [
     (1, ''LDA_X''), (12, ''LDA_C_PW''), (109, ''GGA_X_PW91''), (134, ''GGA_C_PW91''),
     (101, ''GGA_X_PBE''), (130, ''GGA_C_PBE''), (117, ''GGA_X_RPBE''), (102, ''GGA_X_PBE_R''),
     (116, ''GGA_X_PBE_SOL''), (133, ''GGA_C_PBE_SOL''), (120, ''GGA_X_AM05''),
     (135, ''GGA_C_AM05''), (106, ''GGA_X_B88''), (131, ''GGA_C_LYP'')]"

definition libxc_ids :: "int LibxcFuncs" where
  "libxc_ids = \<lparr>
     LDA_X = 1, LDA_C_PW = 12, GGA_X_PW91 = 109, GGA_C_PW91 = 134,
     GGA_X_PBE = 101, GGA_C_PBE = 130, GGA_X_RPBE = 117, GGA_X_PBE_R = 102,
     GGA_X_PBE_SOL = 116, GGA_C_PBE_SOL = 133, GGA_X_AM05 = 120, GGA_C_AM05 = 135,
     GGA_X_B88 = 106, GGA_C_LYP = 131,
     of_value = (\<lambda>n. if n \<in> set (map fst libxc_names) then Some n else None),
     code_name = (\<lambda>m. case map_of libxc_names m of Some s \<Rightarrow> s | None \<Rightarrow> []),
     is_x_kind = (\<lambda>m. m \<in> set [1, 101, 102, 106, 109, 116, 117, 120]),
     is_c_kind = (\<lambda>m. m \<in> set [12, 130, 131, 133, 134, 135])\<rparr>"

section \<open>Properties\<close>

lemma XcFunctional_init_pair:
  "XcFunctional_init PyNone (Code a) (Code b) =
     Inr \<lparr>self_xc = PyNone, self_x = Code a, self_c = Code b\<rparr>"
  by (simp add: XcFunctional_init_def)

subsection \<open>The alias table as a dictionary\<close>

lemma update_fresh: "k \<notin> fst ` set al \<Longrightarrow> AList.update k v al = al @ [(k, v)]"
  by (induction al) auto

lemma foldl_update_distinct:
  "distinct (map fst (acc @ xs)) \<Longrightarrow>
   foldl (\<lambda>d (k, v). AList.update k v d) acc xs = acc @ xs"
  by (induction xs arbitrary: acc) (auto simp: update_fresh)

lemma OrderedDict_distinct: "distinct (map fst xs) \<Longrightarrow> OrderedDict xs = xs"
  using foldl_update_distinct [of "[]" xs] by (simp add: OrderedDict_def)

lemma foldl_update_keys:
  "fst ` set (foldl (\<lambda>d (k, v). AList.update k v d) acc xs) = fst ` set acc \<union> fst ` set xs"
proof (induction xs arbitrary: acc)
  case Nil
  show ?case by simp
next
  case (Cons p xs)
  obtain k v where p: "p = (k, v)" by (cases p)
  show ?case
    unfolding p by (simp add: Cons.IH AList.dom_update)
qed

lemma OrderedDict_keys: "fst ` set (OrderedDict xs) = fst ` set xs"
  by (simp add: OrderedDict_def foldl_update_keys)

lemma from_name_items_found:
  "distinct (map (nt_name \<circ> snd) al) \<Longrightarrow> (Tuple [v0, v1], r) \<in> set al \<Longrightarrow>
   from_name_items al (nt_name r) = XcFunctional_init PyNone v0 v1"
  by (induction al) (auto simp: rev_image_eqI)

lemma alias_items_names: "distinct (map (nt_name \<circ> snd) (alias_items xcf))"
  by (simp add: alias_items_def)

lemma alias_items_shape:
  "(k, r) \<in> set (alias_items xcf) \<Longrightarrow> \<exists>a b. k = Tuple [Code a, Code b]"
  by (auto simp: alias_items_def)

text \<open>
  The table has its eight entries when the eight keys of the literal are pairwise
  different, which is a property of the enumeration: two names of one member would
  make two keys one. The dictionary is then the literal itself.
\<close>

lemma aliases_distinct:
  "distinct (map fst (alias_items xcf)) \<Longrightarrow> aliases xcf = alias_items xcf"
  by (simp add: aliases_def OrderedDict_distinct)

lemma aliases_keys_shape:
  assumes "k \<in> fst ` set (aliases xcf)"
  shows "\<exists>a b. k = Tuple [Code a, Code b]"
proof -
  from assms have "k \<in> fst ` set (alias_items xcf)"
    by (simp add: aliases_def OrderedDict_keys)
  then show ?thesis
    using alias_items_shape by fastforce
qed

lemma aliases_no_single:
  "map_of (aliases xcf) PyNone = None" "map_of (aliases xcf) (Code m) = None"
  using aliases_keys_shape [of _ xcf] by (force simp: map_of_eq_None_iff)+

lemma libxc_ids_keys: "distinct (map fst (alias_items libxc_ids))"
  by (simp add: alias_items_def libxc_ids_def)

subsection \<open>Names of the alias table\<close>

text \<open>
  C1. For every record of the alias table, \<^verbatim>\<open>from_name\<close> of the record's name
  returns an object whose \<^verbatim>\<open>type_name\<close> is the record's type, a hyphen and the
  record's name. The eight keys of the table are taken to be pairwise different.
\<close>

theorem from_name_type_name:
  assumes keys: "distinct (map fst (alias_items xcf))"
    and rec: "(k, r) \<in> set (aliases xcf)"
  shows "\<exists>f. from_name xcf (nt_name r) = Inr f \<and>
             type_name xcf f = Inr (nt_type r @ ''-'' @ nt_name r)"
proof -
  have al: "aliases xcf = alias_items xcf"
    using keys by (rule aliases_distinct)
  from rec al obtain a b where k: "k = Tuple [Code a, Code b]"
    using alias_items_shape by metis
  let ?f = "\<lparr>self_xc = PyNone, self_x = Code a, self_c = Code b\<rparr>"
  have "from_name xcf (nt_name r) = XcFunctional_init PyNone (Code a) (Code b)"
    unfolding from_name_def al
    using rec al k by (intro from_name_items_found alias_items_names) simp
  then have built: "from_name xcf (nt_name r) = Inr ?f"
    by (simp add: XcFunctional_init_pair)
  have pair: "map_of (aliases xcf) (Tuple [Code a, Code b]) = Some r"
    using keys rec al k by (intro map_of_is_SomeI) simp_all
  have "type_name xcf ?f = Inr (nt_type r @ ''-'' @ nt_name r)"
    by (simp add: type_name_def type_def name_def aliases_no_single pair)
  with built show ?thesis by blast
qed

theorem from_name_type_name_witness:
  "distinct (map fst (alias_items libxc_ids)) \<and>
   (Tuple [Code 101, Code 130], \<lparr>nt_type = ''GGA'', nt_name = ''PBE''\<rparr>) \<in> set (aliases libxc_ids) \<and>
   (\<exists>f. from_name libxc_ids ''PBE'' = Inr f \<and> type_name libxc_ids f = Inr ''GGA-PBE'')"
proof -
  have mem: "(Tuple [Code 101, Code 130], \<lparr>nt_type = ''GGA'', nt_name = ''PBE''\<rparr>) \<in> set (aliases libxc_ids)"
    by (simp add: aliases_distinct libxc_ids_keys) (simp add: alias_items_def libxc_ids_def)
  show ?thesis
    using from_name_type_name [OF libxc_ids_keys mem] libxc_ids_keys mem by simp
qed

subsection \<open>Direct construction\<close>

text \<open>
  C3. \<^verbatim>\<open>__init__\<close> raises its \<^verbatim>\<open>ValueError\<close> exactly when \<^verbatim>\<open>xc\<close> is \<^verbatim>\<open>None\<close> and one of
  \<^verbatim>\<open>x\<close>, \<^verbatim>\<open>c\<close> is \<^verbatim>\<open>None\<close>, or \<^verbatim>\<open>xc\<close> is not \<^verbatim>\<open>None\<close> and one of \<^verbatim>\<open>x\<close>, \<^verbatim>\<open>c\<close> is
  not \<^verbatim>\<open>None\<close>; in every other case it returns the object that holds the three
  arguments as they were given.
\<close>

theorem init_fails_iff:
  "XcFunctional_init xc x c =
     (if (xc = PyNone \<and> (x = PyNone \<or> c = PyNone)) \<or> (xc \<noteq> PyNone \<and> (x \<noteq> PyNone \<or> c \<noteq> PyNone))
      then Inl ValueError_init
      else Inr \<lparr>self_xc = xc, self_x = x, self_c = c\<rparr>)"
  by (simp add: XcFunctional_init_def)

theorem init_fails_iff_witness:
  "XcFunctional_init PyNone PyNone PyNone = (Inl ValueError_init :: error + int XcFunctional) \<and>
   XcFunctional_init (Code 101) (Code 101) (Code 130) = (Inl ValueError_init :: error + int XcFunctional) \<and>
   XcFunctional_init PyNone (Code 101) PyNone = (Inl ValueError_init :: error + int XcFunctional) \<and>
   XcFunctional_init (Code 101) PyNone (Code 130) = (Inl ValueError_init :: error + int XcFunctional) \<and>
   XcFunctional_init PyNone (Code (101::int)) (Code 130) =
     Inr \<lparr>self_xc = PyNone, self_x = Code 101, self_c = Code 130\<rparr> \<and>
   XcFunctional_init (Code (101::int)) PyNone PyNone =
     Inr \<lparr>self_xc = Code 101, self_x = PyNone, self_c = PyNone\<rparr>"
  using init_fails_iff [of "PyNone :: int pyval" PyNone PyNone]
    init_fails_iff [of "Code (101::int)" "Code 101" "Code 130"]
    init_fails_iff [of "PyNone :: int pyval" "Code 101" PyNone]
    init_fails_iff [of "Code (101::int)" PyNone "Code 130"]
    init_fails_iff [of "PyNone :: int pyval" "Code 101" "Code 130"]
    init_fails_iff [of "Code (101::int)" PyNone PyNone]
  by simp

subsection \<open>The code 11 and the name PBE\<close>

lemma strip_11: "strip ''11'' = ''11''"
  by (simp add: strip_def isspace_def)

lemma PBE_item:
  "(Tuple [Code (GGA_X_PBE xcf), Code (GGA_C_PBE xcf)], \<lparr>nt_type = ''GGA'', nt_name = ''PBE''\<rparr>)
     \<in> set (alias_items xcf)"
  by (simp add: alias_items_def)

text \<open>
  C4. The object built from the ixc string \<^verbatim>\<open>"11"\<close> and the object built from the
  name \<^verbatim>\<open>"PBE"\<close> are equal under \<^verbatim>\<open>__eq__\<close>. The eight keys of the table are taken
  to be pairwise different.
\<close>

theorem ixc_11_equals_PBE:
  assumes keys: "distinct (map fst (alias_items xcf))"
  shows "\<exists>a b. from_abinit_ixc xcf ''11'' = Inr a \<and> from_name xcf ''PBE'' = Inr b \<and>
               XcFunctional_eq xcf a (OpXc b) = Inr True"
proof -
  let ?f = "\<lparr>self_xc = PyNone, self_x = Code (GGA_X_PBE xcf), self_c = Code (GGA_C_PBE xcf)\<rparr>"
  have al: "aliases xcf = alias_items xcf"
    using keys by (rule aliases_distinct)
  have ixc: "from_abinit_ixc xcf ''11'' = Inr ?f"
    by (simp add: from_abinit_ixc_def strip_11 startswith_minus_def abinitixc_to_libxc_def
        XcFunctional_init_pair)
  have "from_name xcf ''PBE'' =
        XcFunctional_init PyNone (Code (GGA_X_PBE xcf)) (Code (GGA_C_PBE xcf))"
    unfolding from_name_def al
    using from_name_items_found [OF alias_items_names PBE_item, of xcf] by simp
  then have nm: "from_name xcf ''PBE'' = Inr ?f"
    by (simp add: XcFunctional_init_pair)
  have "map_of (aliases xcf) (Tuple [Code (GGA_X_PBE xcf), Code (GGA_C_PBE xcf)]) =
        Some \<lparr>nt_type = ''GGA'', nt_name = ''PBE''\<rparr>"
    unfolding al using keys PBE_item by (rule map_of_is_SomeI)
  then have "name xcf ?f = Inr ''PBE''"
    by (simp add: name_def aliases_no_single)
  then have "XcFunctional_eq xcf ?f (OpXc ?f) = Inr True"
    by (simp add: XcFunctional_eq_def)
  with ixc nm show ?thesis by blast
qed

theorem ixc_11_equals_PBE_witness:
  "distinct (map fst (alias_items libxc_ids)) \<and>
   (\<exists>a b. from_abinit_ixc libxc_ids ''11'' = Inr a \<and> from_name libxc_ids ''PBE'' = Inr b \<and>
          XcFunctional_eq libxc_ids a (OpXc b) = Inr True)"
  using ixc_11_equals_PBE [OF libxc_ids_keys] libxc_ids_keys by simp

subsection \<open>Objects outside the alias table\<close>

text \<open>
  C5. When neither \<^verbatim>\<open>self.xc\<close> nor the tuple \<^verbatim>\<open>(self.x, self.c)\<close> is a key of the
  alias table, \<^verbatim>\<open>type\<close> raises \<^verbatim>\<open>NotImplementedError\<close>; it returns no string.
\<close>

theorem type_unknown:
  assumes "self_xc f \<notin> fst ` set (aliases xcf)"
    and "Tuple [self_x f, self_c f] \<notin> fst ` set (aliases xcf)"
  shows "type xcf f = Inl NotImplementedError"
  using assms by (simp add: type_def map_of_eq_None_iff [symmetric])

lemma libxc_ids_aliases: "aliases libxc_ids = alias_items libxc_ids"
  by (simp add: aliases_distinct libxc_ids_keys)

lemma libxc_ids_alias_keys:
  "fst ` set (aliases libxc_ids) =
     {Tuple [Code 1, Code 12], Tuple [Code 109, Code 134], Tuple [Code 101, Code 130],
      Tuple [Code 117, Code 130], Tuple [Code 102, Code 130], Tuple [Code 116, Code 133],
      Tuple [Code 120, Code 135], Tuple [Code 106, Code 131]}"
  unfolding libxc_ids_aliases by (simp add: alias_items_def libxc_ids_def)

theorem type_unknown_witness:
  "self_xc \<lparr>self_xc = PyNone, self_x = Code 1, self_c = Code 130\<rparr> \<notin> fst ` set (aliases libxc_ids) \<and>
   Tuple [self_x \<lparr>self_xc = PyNone, self_x = Code 1, self_c = Code 130\<rparr>,
          self_c \<lparr>self_xc = PyNone, self_x = Code 1, self_c = Code 130\<rparr>] \<notin> fst ` set (aliases libxc_ids) \<and>
   type libxc_ids \<lparr>self_xc = PyNone, self_x = Code 1, self_c = Code 130\<rparr> = Inl NotImplementedError"
proof -
  let ?f = "\<lparr>self_xc = PyNone, self_x = Code (1::int), self_c = Code 130\<rparr>"
  have 1: "self_xc ?f \<notin> fst ` set (aliases libxc_ids)"
    by (simp add: libxc_ids_alias_keys)
  have 2: "Tuple [self_x ?f, self_c ?f] \<notin> fst ` set (aliases libxc_ids)"
    by (simp add: libxc_ids_alias_keys)
  show ?thesis
    using type_unknown [OF 1 2] 1 2 by simp
qed

subsection \<open>Packed ixc strings\<close>

text \<open>
  C7. When the stripped string starts with a minus sign and what follows the sign is
  not six characters long, \<^verbatim>\<open>from_abinit_ixc\<close> fails at its first assertion.
\<close>

theorem malformed_length:
  assumes "startswith_minus (strip s)" and "length (drop 1 (strip s)) \<noteq> 6"
  shows "from_abinit_ixc xcf s = Inl AssertionError_length"
  using assms by (simp add: from_abinit_ixc_def)

lemma strip_12345: "strip ''-12345'' = ''-12345''"
  by (simp add: strip_def isspace_def)

theorem malformed_length_witness:
  "startswith_minus (strip ''-12345'') \<and> length (drop 1 (strip ''-12345'')) \<noteq> 6 \<and>
   from_abinit_ixc libxc_ids ''-12345'' = Inl AssertionError_length"
proof -
  have 1: "startswith_minus (strip ''-12345'')"
    by (simp add: strip_12345 startswith_minus_def)
  have 2: "length (drop 1 (strip ''-12345'')) \<noteq> 6"
    by (simp add: strip_12345)
  show ?thesis
    using malformed_length [OF 1 2, of libxc_ids] 1 2 by simp
qed

subsection \<open>Comparison with None\<close>

text \<open>
  C10. For every object \<open>a\<close>, \<^verbatim>\<open>a == None\<close> is \<^verbatim>\<open>False\<close> and \<^verbatim>\<open>a != None\<close> is \<^verbatim>\<open>True\<close>.
  The name of \<open>a\<close> is not read: the result is the same for an object whose name
  cannot be computed.
\<close>

theorem eq_None:
  "XcFunctional_eq xcf a OpNone = Inr False \<and> XcFunctional_ne xcf a OpNone = Inr True"
  by (simp add: XcFunctional_eq_def XcFunctional_ne_def)

theorem eq_None_witness:
  "XcFunctional_eq libxc_ids \<lparr>self_xc = Tuple [], self_x = PyNone, self_c = PyNone\<rparr> OpNone = Inr False \<and>
   XcFunctional_ne libxc_ids \<lparr>self_xc = Tuple [], self_x = PyNone, self_c = PyNone\<rparr> OpNone = Inr True \<and>
   name libxc_ids \<lparr>self_xc = Tuple [], self_x = PyNone, self_c = PyNone\<rparr> = Inl AttributeError"
proof -
  have "name libxc_ids \<lparr>self_xc = Tuple [], self_x = PyNone, self_c = PyNone\<rparr> = Inl AttributeError"
    by (simp add: name_def map_of_eq_None_iff [THEN iffD2] libxc_ids_alias_keys attr_name_def)
  then show ?thesis
    using eq_None [of libxc_ids "\<lparr>self_xc = Tuple [], self_x = PyNone, self_c = PyNone\<rparr>"] by simp
qed

subsection \<open>What the constructors return\<close>

lemma member_or_None_cases: "member_or_None v \<longleftrightarrow> v = PyNone \<or> (\<exists>m. v = Code m)"
  by (cases v) (simp_all add: member_or_None_def)

lemma init_shape:
  assumes "member_or_None xc" "member_or_None x" "member_or_None c"
    and "XcFunctional_init xc x c = Inr f"
  shows "(\<exists>m. f = \<lparr>self_xc = Code m, self_x = PyNone, self_c = PyNone\<rparr>) \<or>
         (\<exists>a b. f = \<lparr>self_xc = PyNone, self_x = Code a, self_c = Code b\<rparr>)"
  using assms
  by (auto simp: XcFunctional_init_def member_or_None_cases split: if_splits)

lemma from_abinit_ixc_shape:
  assumes "from_abinit_ixc xcf s = Inr f"
  shows "\<exists>a b. f = \<lparr>self_xc = PyNone, self_x = Code a, self_c = Code b\<rparr>"
  using assms
  by (auto simp: from_abinit_ixc_def Let_def XcFunctional_init_pair
      split: if_splits option.splits sum.splits prod.splits)

lemma from_name_items_shape:
  assumes "\<And>k. k \<in> fst ` set al \<Longrightarrow> \<exists>a b. k = Tuple [Code a, Code b]"
    and "from_name_items al nm = Inr f"
  shows "\<exists>a b. f = \<lparr>self_xc = PyNone, self_x = Code a, self_c = Code b\<rparr>"
  using assms
proof (induction al)
  case Nil
  then show ?case by simp
next
  case (Cons p al)
  obtain k tn where p: "p = (k, tn)" by (cases p)
  from Cons.prems(1) [of k] p obtain a b where k: "k = Tuple [Code a, Code b]"
    by auto
  show ?case
  proof (cases "nt_name tn = nm")
    case True
    with Cons.prems(2) p k show ?thesis
      by (auto simp: XcFunctional_init_pair)
  next
    case False
    with Cons.prems p have "from_name_items al nm = Inr f" by simp
    moreover have "\<And>k. k \<in> fst ` set al \<Longrightarrow> \<exists>a b. k = Tuple [Code a, Code b]"
      using Cons.prems(1) by simp
    ultimately show ?thesis using Cons.IH by blast
  qed
qed

lemma from_name_shape:
  assumes "from_name xcf nm = Inr f"
  shows "\<exists>a b. f = \<lparr>self_xc = PyNone, self_x = Code a, self_c = Code b\<rparr>"
  using from_name_items_shape [of "aliases xcf" nm f] aliases_keys_shape [of _ xcf] assms
  by (simp add: from_name_def)

lemma constructed_shape:
  assumes "constructed xcf f"
  shows "(\<exists>m. f = \<lparr>self_xc = Code m, self_x = PyNone, self_c = PyNone\<rparr>) \<or>
         (\<exists>a b. f = \<lparr>self_xc = PyNone, self_x = Code a, self_c = Code b\<rparr>)"
  using assms
proof cases
  case (by_ixc s)
  then show ?thesis using from_abinit_ixc_shape by blast
next
  case (by_name nm)
  then show ?thesis using from_name_shape by blast
next
  case (by_init xc x c)
  then show ?thesis using init_shape by blast
qed

lemma aliases_no_None_pair: "map_of (aliases xcf) (Tuple [PyNone, PyNone]) = None"
  using aliases_keys_shape [of "Tuple [PyNone, PyNone]" xcf]
  by (auto simp: map_of_eq_None_iff)

lemma name_single:
  "name xcf \<lparr>self_xc = Code m, self_x = PyNone, self_c = PyNone\<rparr> = Inr (code_name xcf m)"
  by (simp add: name_def aliases_no_single aliases_no_None_pair attr_name_def)

lemma name_pair:
  "name xcf \<lparr>self_xc = PyNone, self_x = Code a, self_c = Code b\<rparr> =
     (case map_of (aliases xcf) (Tuple [Code a, Code b]) of
        Some tn \<Rightarrow> Inr (nt_name tn)
      | None \<Rightarrow> Inr (code_name xcf a @ ''+'' @ code_name xcf b))"
  by (simp add: name_def aliases_no_single attr_name_def split: option.splits)

lemma name_total:
  assumes "constructed xcf f"
  shows "\<exists>n. name xcf f = Inr n"
  using constructed_shape [OF assms]
  by (auto simp: name_single name_pair split: option.splits)

text \<open>
  C6. For an object returned by a constructor, when neither \<^verbatim>\<open>self.xc\<close> nor the tuple
  \<^verbatim>\<open>(self.x, self.c)\<close> is a key of the alias table, \<^verbatim>\<open>name\<close> returns a string: the
  name of the member \<^verbatim>\<open>self.xc\<close> when that is set, and otherwise the names of
  \<^verbatim>\<open>self.x\<close> and \<^verbatim>\<open>self.c\<close> joined by a plus sign.
\<close>

theorem name_fallback:
  assumes built: "constructed xcf f"
    and single: "self_xc f \<notin> fst ` set (aliases xcf)"
    and pair: "Tuple [self_x f, self_c f] \<notin> fst ` set (aliases xcf)"
  shows "(\<exists>m. self_xc f = Code m \<and> name xcf f = Inr (code_name xcf m)) \<or>
         (\<exists>a b. self_xc f = PyNone \<and> self_x f = Code a \<and> self_c f = Code b \<and>
                name xcf f = Inr (code_name xcf a @ ''+'' @ code_name xcf b))"
  using constructed_shape [OF built]
proof (elim disjE exE)
  fix m assume "f = \<lparr>self_xc = Code m, self_x = PyNone, self_c = PyNone\<rparr>"
  then show ?thesis by (simp add: name_single)
next
  fix a b assume f: "f = \<lparr>self_xc = PyNone, self_x = Code a, self_c = Code b\<rparr>"
  with pair have "map_of (aliases xcf) (Tuple [Code a, Code b]) = None"
    by (simp add: map_of_eq_None_iff)
  with f show ?thesis by (simp add: name_pair)
qed

text \<open>
  C8. When the stripped string is a minus sign and six characters, both halves are
  read as integers and resolve to members, and the two members are not one of
  exchange kind and one of correlation kind (in either order), \<^verbatim>\<open>from_abinit_ixc\<close>
  fails at its second assertion, which comes after the swap.
\<close>

theorem kind_assertion:
  assumes "startswith_minus (strip s)" and "length (drop 1 (strip s)) = 6"
    and "LibxcFuncs_of_string xcf (take 3 (drop 1 (strip s))) = Inr a"
    and "LibxcFuncs_of_string xcf (drop 4 (strip s)) = Inr b"
    and "\<not> ((is_x_kind xcf a \<and> is_c_kind xcf b) \<or> (is_c_kind xcf a \<and> is_x_kind xcf b))"
  shows "from_abinit_ixc xcf s = Inl AssertionError_kind"
  using assms by (auto simp: from_abinit_ixc_def Let_def)

subsection \<open>The two orders of a packed string\<close>

lemma strip_unchanged:
  assumes "s \<noteq> []" and "\<not> isspace (hd s)" and "\<not> isspace (last s)"
  shows "strip s = s"
proof -
  have "dropWhile isspace s = s"
    using assms by (simp add: dropWhile_eq_self_iff)
  moreover have "dropWhile isspace (rev s) = rev s"
    using assms by (simp add: dropWhile_eq_self_iff hd_rev)
  ultimately show ?thesis by (simp add: strip_def)
qed

lemma isdigit_not_isspace: "isdigit ch \<Longrightarrow> \<not> isspace ch"
  by (auto simp: isdigit_def isspace_def)

lemma strip_packed:
  assumes "length a = 3" "length b = 3" "list_all isdigit b"
  shows "strip (''-'' @ a @ b) = ''-'' @ a @ b"
proof (rule strip_unchanged)
  show "''-'' @ a @ b \<noteq> []" by simp
  show "\<not> isspace (hd (''-'' @ a @ b))" by (simp add: isspace_def)
  from assms have "b \<noteq> []" by auto
  then have "last (''-'' @ a @ b) = last b" by simp
  moreover from \<open>b \<noteq> []\<close> assms(3) have "isdigit (last b)"
    by (simp add: list_all_iff)
  ultimately show "\<not> isspace (last (''-'' @ a @ b))"
    by (simp add: isdigit_not_isspace)
qed

lemma from_abinit_ixc_packed:
  assumes "length a = 3" "length b = 3" "list_all isdigit b"
    and "LibxcFuncs_of_string xcf a = Inr x0" and "LibxcFuncs_of_string xcf b = Inr c0"
  shows "from_abinit_ixc xcf (''-'' @ a @ b) =
     (let (x, c) = (if \<not> is_x_kind xcf x0 then (c0, x0) else (x0, c0)) in
      if \<not> (is_x_kind xcf x \<and> is_c_kind xcf c) then Inl AssertionError_kind
      else XcFunctional_init PyNone (Code x) (Code c))"
proof -
  have "strip (''-'' @ a @ b) = CHR ''-'' # a @ b"
    using strip_packed [OF assms(1-3)] by simp
  then show ?thesis
    using assms by (simp add: from_abinit_ixc_def startswith_minus_def)
qed

text \<open>
  C2. Let \<open>a\<close> and \<open>b\<close> be strings of three digits that resolve to a member \<open>X\<close> of
  exchange kind and a member \<open>C\<close> of correlation kind, \<open>C\<close> not being of exchange
  kind as well. Then the packed strings \<^verbatim>\<open>"-" + a + b\<close> and \<^verbatim>\<open>"-" + b + a\<close> give the same
  object, with \<^verbatim>\<open>x = X\<close> and \<^verbatim>\<open>c = C\<close>, and the object is equal to itself under
  \<^verbatim>\<open>__eq__\<close>.
\<close>

theorem packed_orders_equal:
  assumes "length a = 3" "list_all isdigit a" "length b = 3" "list_all isdigit b"
    and "LibxcFuncs_of_string xcf a = Inr X" and "LibxcFuncs_of_string xcf b = Inr C"
    and "is_x_kind xcf X" and "is_c_kind xcf C" and "\<not> is_x_kind xcf C"
  shows "from_abinit_ixc xcf (''-'' @ a @ b) = Inr \<lparr>self_xc = PyNone, self_x = Code X, self_c = Code C\<rparr> \<and>
         from_abinit_ixc xcf (''-'' @ b @ a) = Inr \<lparr>self_xc = PyNone, self_x = Code X, self_c = Code C\<rparr> \<and>
         XcFunctional_eq xcf \<lparr>self_xc = PyNone, self_x = Code X, self_c = Code C\<rparr>
           (OpXc \<lparr>self_xc = PyNone, self_x = Code X, self_c = Code C\<rparr>) = Inr True"
proof -
  let ?f = "\<lparr>self_xc = PyNone, self_x = Code X, self_c = Code C\<rparr>"
  have 1: "from_abinit_ixc xcf (''-'' @ a @ b) = Inr ?f"
    using assms by (simp add: from_abinit_ixc_packed XcFunctional_init_pair del: append.simps)
  have 2: "from_abinit_ixc xcf (''-'' @ b @ a) = Inr ?f"
    using assms by (simp add: from_abinit_ixc_packed XcFunctional_init_pair del: append.simps)
  have "constructed xcf ?f"
    using 1 by (rule constructed.by_ixc)
  then obtain n where "name xcf ?f = Inr n"
    using name_total by blast
  then have "XcFunctional_eq xcf ?f (OpXc ?f) = Inr True"
    by (simp add: XcFunctional_eq_def)
  with 1 2 show ?thesis by blast
qed

subsection \<open>The instance at concrete inputs\<close>

lemma libxc_ids_of_string:
  "LibxcFuncs_of_string libxc_ids ''101'' = Inr 101"
  "LibxcFuncs_of_string libxc_ids ''130'' = Inr 130"
  "LibxcFuncs_of_string libxc_ids ''001'' = Inr 1"
  "LibxcFuncs_of_string libxc_ids ''999'' = Inl ValueError_LibxcFuncs"
  by (simp_all add: LibxcFuncs_of_string_def py_int_def int_space_def unsigned_int_def
      isdigit_def digit_value_def libxc_ids_def libxc_names_def)

text \<open>Strings that single versions of \<^verbatim>\<open>int\<close> read, or that only \<^verbatim>\<open>strip()\<close> trims.\<close>

lemma py_int_rejects:
  "py_int [CHR 0x1C, CHR ''1'', CHR ''2''] = Inl ValueError_int"
  "py_int [CHR ''1'', CHR ''2'', CHR 0x1F] = Inl ValueError_int"
  "py_int ''1_2'' = Inl ValueError_int"
  "py_int ''- 1'' = Inl ValueError_int"
  "py_int '' 12'' = Inr 12"
  "py_int ''-12'' = Inr (- 12)"
  by (simp_all add: py_int_def int_space_def unsigned_int_def isdigit_def digit_value_def)

lemma libxc_ids_kinds:
  "is_x_kind libxc_ids 101" "is_c_kind libxc_ids 130" "\<not> is_x_kind libxc_ids 130"
  "is_x_kind libxc_ids 1" "\<not> is_c_kind libxc_ids 1" "\<not> is_c_kind libxc_ids 101"
  by (simp_all add: libxc_ids_def)

lemma libxc_ids_code_names:
  "code_name libxc_ids 1 = ''LDA_X''" "code_name libxc_ids 130 = ''GGA_C_PBE''"
  by (simp_all add: libxc_ids_def libxc_names_def)

theorem name_fallback_witness:
  "constructed libxc_ids \<lparr>self_xc = PyNone, self_x = Code 1, self_c = Code 130\<rparr> \<and>
   self_xc \<lparr>self_xc = PyNone, self_x = Code 1, self_c = Code 130\<rparr> \<notin> fst ` set (aliases libxc_ids) \<and>
   Tuple [self_x \<lparr>self_xc = PyNone, self_x = Code 1, self_c = Code 130\<rparr>,
          self_c \<lparr>self_xc = PyNone, self_x = Code 1, self_c = Code 130\<rparr>] \<notin> fst ` set (aliases libxc_ids) \<and>
   name libxc_ids \<lparr>self_xc = PyNone, self_x = Code 1, self_c = Code 130\<rparr> = Inr ''LDA_X+GGA_C_PBE''"
proof -
  let ?f = "\<lparr>self_xc = PyNone, self_x = Code (1::int), self_c = Code 130\<rparr>"
  have "XcFunctional_init PyNone (Code (1::int)) (Code 130) = Inr ?f"
    by (rule XcFunctional_init_pair)
  then have 0: "constructed libxc_ids ?f"
    by (intro constructed.by_init [of PyNone "Code 1" "Code 130"]) (simp_all add: member_or_None_def)
  have 1: "self_xc ?f \<notin> fst ` set (aliases libxc_ids)"
    by (simp add: libxc_ids_alias_keys)
  have 2: "Tuple [self_x ?f, self_c ?f] \<notin> fst ` set (aliases libxc_ids)"
    by (simp add: libxc_ids_alias_keys)
  show ?thesis
    using name_fallback [OF 0 1 2] 0 1 2 by (simp add: libxc_ids_code_names)
qed

lemma strip_101001: "strip ''-101001'' = ''-101001''"
  by (simp add: strip_def isspace_def)

theorem kind_assertion_witness:
  "startswith_minus (strip ''-101001'') \<and> length (drop 1 (strip ''-101001'')) = 6 \<and>
   LibxcFuncs_of_string libxc_ids (take 3 (drop 1 (strip ''-101001''))) = Inr 101 \<and>
   LibxcFuncs_of_string libxc_ids (drop 4 (strip ''-101001'')) = Inr 1 \<and>
   \<not> ((is_x_kind libxc_ids 101 \<and> is_c_kind libxc_ids 1) \<or>
       (is_c_kind libxc_ids 101 \<and> is_x_kind libxc_ids 1)) \<and>
   from_abinit_ixc libxc_ids ''-101001'' = Inl AssertionError_kind"
proof -
  have 1: "startswith_minus (strip ''-101001'')"
    by (simp add: strip_101001 startswith_minus_def)
  have 2: "length (drop 1 (strip ''-101001'')) = 6"
    by (simp add: strip_101001)
  have 3: "LibxcFuncs_of_string libxc_ids (take 3 (drop 1 (strip ''-101001''))) = Inr 101"
    by (simp add: strip_101001 libxc_ids_of_string)
  have 4: "LibxcFuncs_of_string libxc_ids (drop 4 (strip ''-101001'')) = Inr 1"
    by (simp add: strip_101001 libxc_ids_of_string)
  have 5: "\<not> ((is_x_kind libxc_ids 101 \<and> is_c_kind libxc_ids 1) \<or>
       (is_c_kind libxc_ids 101 \<and> is_x_kind libxc_ids 1))"
    by (simp add: libxc_ids_kinds)
  show ?thesis
    using kind_assertion [OF 1 2 3 4 5] 1 2 3 4 5 by simp
qed

lemma strip_999999: "strip ''-999999'' = ''-999999''"
  by (simp add: strip_def isspace_def)

text \<open>
  The string \<^verbatim>\<open>"-999999"\<close> has the right length, but in \<open>libxc_ids\<close>, as in libxc, no
  member has the number 999: \<^verbatim>\<open>LibxcFuncs(999)\<close> raises \<^verbatim>\<open>ValueError\<close> and the second
  assertion is not reached.
\<close>

theorem kind_assertion_counterexample:
  "startswith_minus (strip ''-999999'') \<and> length (drop 1 (strip ''-999999'')) = 6 \<and>
   from_abinit_ixc libxc_ids ''-999999'' = Inl ValueError_LibxcFuncs \<and>
   from_abinit_ixc libxc_ids ''-999999'' \<noteq> Inl AssertionError_kind"
  by (simp add: from_abinit_ixc_def strip_999999 startswith_minus_def libxc_ids_of_string)

theorem packed_orders_equal_witness:
  "length ''101'' = 3 \<and> list_all isdigit ''101'' \<and> length ''130'' = 3 \<and> list_all isdigit ''130'' \<and>
   LibxcFuncs_of_string libxc_ids ''101'' = Inr 101 \<and>
   LibxcFuncs_of_string libxc_ids ''130'' = Inr 130 \<and>
   is_x_kind libxc_ids 101 \<and> is_c_kind libxc_ids 130 \<and> \<not> is_x_kind libxc_ids 130 \<and>
   from_abinit_ixc libxc_ids ''-101130'' = Inr \<lparr>self_xc = PyNone, self_x = Code 101, self_c = Code 130\<rparr> \<and>
   from_abinit_ixc libxc_ids ''-130101'' = Inr \<lparr>self_xc = PyNone, self_x = Code 101, self_c = Code 130\<rparr> \<and>
   XcFunctional_eq libxc_ids \<lparr>self_xc = PyNone, self_x = Code 101, self_c = Code 130\<rparr>
     (OpXc \<lparr>self_xc = PyNone, self_x = Code 101, self_c = Code 130\<rparr>) = Inr True"
proof -
  have d: "list_all isdigit ''101''" "list_all isdigit ''130''"
    by (simp_all add: isdigit_def)
  have l: "length ''101'' = 3" "length ''130'' = 3"
    by simp_all
  show ?thesis
    using packed_orders_equal [OF l(1) d(1) l(2) d(2) libxc_ids_of_string(1,2) libxc_ids_kinds(1,2,3)]
      d libxc_ids_of_string(1,2) libxc_ids_kinds(1,2,3)
    by simp
qed

subsection \<open>Equality and hashing\<close>

text \<open>
  C9. On objects returned by the constructors, \<^verbatim>\<open>==\<close> is reflexive, symmetric and
  transitive; two objects with the same name are equal and have the same hash, and
  equal objects have the same hash; an object is equal to its own name, a string.
\<close>

theorem eq_equivalence_hash:
  assumes "constructed xcf a" and "constructed xcf b" and "constructed xcf d"
  shows "XcFunctional_eq xcf a (OpXc a) = Inr True \<and>
         XcFunctional_eq xcf b (OpXc a) = XcFunctional_eq xcf a (OpXc b) \<and>
         (XcFunctional_eq xcf a (OpXc b) = Inr True \<and> XcFunctional_eq xcf b (OpXc d) = Inr True \<longrightarrow>
            XcFunctional_eq xcf a (OpXc d) = Inr True) \<and>
         (name xcf a = name xcf b \<longrightarrow>
            XcFunctional_eq xcf a (OpXc b) = Inr True \<and>
            XcFunctional_hash h xcf a = XcFunctional_hash h xcf b) \<and>
         (XcFunctional_eq xcf a (OpXc b) = Inr True \<longrightarrow>
            XcFunctional_hash h xcf a = XcFunctional_hash h xcf b) \<and>
         (\<exists>n. name xcf a = Inr n \<and> XcFunctional_hash h xcf a = Inr (h n) \<and>
              XcFunctional_eq xcf a (OpStr n) = Inr True)"
proof -
  obtain na where na: "name xcf a = Inr na"
    using name_total [OF assms(1)] ..
  obtain nb where nb: "name xcf b = Inr nb"
    using name_total [OF assms(2)] ..
  obtain nd where nd: "name xcf d = Inr nd"
    using name_total [OF assms(3)] ..
  have refl: "XcFunctional_eq xcf a (OpXc a) = Inr True"
    by (simp add: XcFunctional_eq_def na)
  have sym: "XcFunctional_eq xcf b (OpXc a) = XcFunctional_eq xcf a (OpXc b)"
    by (simp add: XcFunctional_eq_def na nb eq_commute)
  have ab: "XcFunctional_eq xcf a (OpXc b) = Inr (na = nb)"
    by (simp add: XcFunctional_eq_def na nb)
  have bd: "XcFunctional_eq xcf b (OpXc d) = Inr (nb = nd)"
    by (simp add: XcFunctional_eq_def nb nd)
  have ad: "XcFunctional_eq xcf a (OpXc d) = Inr (na = nd)"
    by (simp add: XcFunctional_eq_def na nd)
  have ha: "XcFunctional_hash h xcf a = Inr (h na)"
    by (simp add: XcFunctional_hash_def na)
  have hb: "XcFunctional_hash h xcf b = Inr (h nb)"
    by (simp add: XcFunctional_hash_def nb)
  have str: "XcFunctional_eq xcf a (OpStr na) = Inr True"
    by (simp add: XcFunctional_eq_def na)
  have trans: "XcFunctional_eq xcf a (OpXc b) = Inr True \<and> XcFunctional_eq xcf b (OpXc d) = Inr True \<longrightarrow>
            XcFunctional_eq xcf a (OpXc d) = Inr True"
    by (simp add: ab bd ad)
  have hash1: "name xcf a = name xcf b \<longrightarrow>
            XcFunctional_eq xcf a (OpXc b) = Inr True \<and>
            XcFunctional_hash h xcf a = XcFunctional_hash h xcf b"
    by (simp add: ab ha hb na nb)
  have hash2: "XcFunctional_eq xcf a (OpXc b) = Inr True \<longrightarrow>
            XcFunctional_hash h xcf a = XcFunctional_hash h xcf b"
    by (simp add: ab ha hb)
  have last: "\<exists>n. name xcf a = Inr n \<and> XcFunctional_hash h xcf a = Inr (h n) \<and>
              XcFunctional_eq xcf a (OpStr n) = Inr True"
    using na ha str by blast
  from refl sym trans hash1 hash2 last show ?thesis
    by (intro conjI)
qed

lemma libxc_ids_from_abinit_ixc_11:
  "from_abinit_ixc libxc_ids ''11'' = Inr \<lparr>self_xc = PyNone, self_x = Code 101, self_c = Code 130\<rparr>"
  by (simp add: from_abinit_ixc_def strip_11 startswith_minus_def abinitixc_to_libxc_def
      XcFunctional_init_pair libxc_ids_def)

lemma libxc_ids_from_name_PBE:
  "from_name libxc_ids ''PBE'' = Inr \<lparr>self_xc = PyNone, self_x = Code 101, self_c = Code 130\<rparr>"
  unfolding from_name_def libxc_ids_aliases
  by (simp add: alias_items_def XcFunctional_init_pair libxc_ids_def)

lemma libxc_ids_name_PBE:
  "name libxc_ids \<lparr>self_xc = PyNone, self_x = Code 101, self_c = Code 130\<rparr> = Inr ''PBE''"
  unfolding name_pair libxc_ids_aliases
  by (simp add: alias_items_def libxc_ids_def)

theorem eq_equivalence_hash_witness:
  "constructed libxc_ids \<lparr>self_xc = PyNone, self_x = Code 101, self_c = Code 130\<rparr> \<and>
   from_abinit_ixc libxc_ids ''11'' = Inr \<lparr>self_xc = PyNone, self_x = Code 101, self_c = Code 130\<rparr> \<and>
   from_name libxc_ids ''PBE'' = Inr \<lparr>self_xc = PyNone, self_x = Code 101, self_c = Code 130\<rparr> \<and>
   XcFunctional_init PyNone (Code 101) (Code 130) =
     Inr \<lparr>self_xc = PyNone, self_x = Code (101::int), self_c = Code 130\<rparr> \<and>
   XcFunctional_eq libxc_ids \<lparr>self_xc = PyNone, self_x = Code 101, self_c = Code 130\<rparr>
     (OpXc \<lparr>self_xc = PyNone, self_x = Code 101, self_c = Code 130\<rparr>) = Inr True \<and>
   XcFunctional_hash (\<lambda>s. int (length s)) libxc_ids
     \<lparr>self_xc = PyNone, self_x = Code 101, self_c = Code 130\<rparr> = Inr 3 \<and>
   XcFunctional_eq libxc_ids \<lparr>self_xc = PyNone, self_x = Code 101, self_c = Code 130\<rparr>
     (OpStr ''PBE'') = Inr True"
proof -
  let ?f = "\<lparr>self_xc = PyNone, self_x = Code (101::int), self_c = Code 130\<rparr>"
  have a: "constructed libxc_ids ?f"
    using libxc_ids_from_abinit_ixc_11 by (rule constructed.by_ixc)
  have b: "constructed libxc_ids ?f"
    using libxc_ids_from_name_PBE by (rule constructed.by_name)
  have i: "XcFunctional_init PyNone (Code 101) (Code 130) = Inr ?f"
    by (rule XcFunctional_init_pair)
  have d: "constructed libxc_ids ?f"
    using i by (intro constructed.by_init [of PyNone "Code 101" "Code 130"])
      (simp_all add: member_or_None_def)
  show ?thesis
    using eq_equivalence_hash [OF a b d, of "\<lambda>s. int (length s)"]
      a i libxc_ids_from_abinit_ixc_11 libxc_ids_from_name_PBE libxc_ids_name_PBE
    by simp
qed

end
